theory Spec2Isabelle
  imports Complex_Main "HOL-Library.Word"
begin

section \<open>Data model of the frame servers\<close>

text \<open>
  The repository holds two Node.js servers: \<^verbatim>\<open>websocket-frame-server.js\<close> (the main
  server) and \<^verbatim>\<open>syphon-server-fixed.js\<close> (a PNG-only variant). Both keep their state in
  module-level variables and mutate it from event handlers. The embedding passes that
  state explicitly: every handler is a function from the state before the event to the
  state after it (and the HTTP response, where there is one). A handler is taken as one
  atomic step, the \<^verbatim>\<open>await\<close> inside the message handler included; interleavings of
  suspended handlers are not modelled.
\<close>

type_synonym byte = "8 word"
type_synonym buffer = "byte list"

text \<open>
  A JavaScript number that is not \<^verbatim>\<open>NaN\<close> is a rational or one of the two infinities. A
  JSON value, as \<^verbatim>\<open>express.json()\<close> leaves it in the request body, is \<^verbatim>\<open>null\<close>, a boolean,
  a number, a string, an array or an object.
\<close>

datatype js_number = Num rat | PosInfinity | NegInfinity | NaN

datatype json =
    JNull
  | JBool bool
  | JNumber js_number
  | JString string
  | JArray "json list"
  | JObject "(string \<times> json) list"

text \<open>A WebSocket message as the \<^verbatim>\<open>ws\<close> library hands it over: a Buffer or a string.\<close>

datatype raw_message = BufferData buffer | StringData string

text \<open>
  The output stage requested from the image library: \<^verbatim>\<open>.webp({ quality })\<close>,
  \<^verbatim>\<open>.jpeg({ quality })\<close>, \<^verbatim>\<open>.png({ compressionLevel })\<close>, \<^verbatim>\<open>.png({ quality })\<close>
  and \<^verbatim>\<open>.toFormat(format, { quality })\<close>. The quality that the handlers pass on is the
  configured value, whatever JSON value that is; the two PNG stages of the handlers carry
  the literals 6 and 100.
\<close>

datatype sharp_output =
    Webp json
  | Jpeg json
  | Png int
  | PngQuality int
  | ToFormat string json

text \<open>
  The three ways a call \<^verbatim>\<open>sharp(input).<output>.toBuffer()\<close> can end: the constructor or the
  output method throws while the chain is built (the output methods check their options
  there), the promise of \<^verbatim>\<open>toBuffer()\<close> is rejected, or it is resolved with the encoded
  bytes.
\<close>

datatype sharp_result = Thrown string | Rejected string | Resolved buffer

text \<open>
  The result of converting a value to a number for a comparison: a number, or the
  \<^verbatim>\<open>TypeError\<close> thrown when an object has no primitive value.
\<close>

datatype coerced = Number js_number | TypeError string

fun output_format :: "sharp_output \<Rightarrow> string" where
  "output_format (Webp q) = ''webp''"
| "output_format (Jpeg q) = ''jpeg''"
| "output_format (Png l) = ''png''"
| "output_format (PngQuality q) = ''png''"
| "output_format (ToFormat f q) = f"

text \<open>
  What the handlers call outside the repository, taken as parameters:
  \<^item> \<open>toString_utf8\<close>: \<^verbatim>\<open>data.toString('utf8')\<close> of a Buffer;
  \<^item> \<open>from_base64\<close>: \<^verbatim>\<open>Buffer.from(text, 'base64')\<close>; \<open>Inl\<close> carries the message of a
    thrown error (Node's own decoder is lenient and returns a Buffer for every string);
  \<^item> \<open>sharp\<close>: \<^verbatim>\<open>sharp(input).<output>.toBuffer()\<close>;
  \<^item> \<open>string_to_number\<close>: the number a string converts to in a numeric comparison;
  \<^item> \<open>object_to_number\<close>: the same for an array or an object, by way of its primitive
    value.
\<close>

record runtime =
  toString_utf8 :: "buffer \<Rightarrow> string"
  from_base64 :: "string \<Rightarrow> string + buffer"
  sharp :: "buffer \<Rightarrow> sharp_output \<Rightarrow> sharp_result"
  string_to_number :: "string \<Rightarrow> js_number"
  object_to_number :: "json \<Rightarrow> coerced"

text \<open>
  The texts assigned to \<^verbatim>\<open>lastFrameType\<close>, one constructor per template:
  \<^verbatim>\<open>'waiting...'\<close>, \<^verbatim>\<open>'raw buffer'\<close>, \<^verbatim>\<open>'frame too large'\<close>,
  \<^verbatim>\<open>`data:image/* -> ${FORMAT} (ok)`\<close>, \<^verbatim>\<open>`conversion error: ${message}`\<close>,
  \<^verbatim>\<open>`raw buffer -> ${FORMAT} (ok)`\<close>, \<^verbatim>\<open>'raw buffer error'\<close>, \<^verbatim>\<open>'unknown format'\<close>,
  \<^verbatim>\<open>'buffer cleared'\<close> and \<^verbatim>\<open>`error: ${message}`\<close>.
\<close>

datatype frame_type =
    Waiting
  | RawBuffer
  | FrameTooLarge
  | DataImageConverted string
  | ConversionError string
  | RawBufferConverted string
  | RawBufferError
  | UnknownFormat
  | BufferCleared
  | ProcessingError string

record config =
  outputFormat :: string
  quality :: json
  maxFrameSize :: int
  cleanupInterval :: int
  statsInterval :: int

record server_state =
  latestFrameBuffer :: "buffer option"
  frameCount :: int
  clientCount :: int
  bytesReceived :: int
  lastFrameType :: frame_type
  serverStartTime :: int
  connectionErrors :: int
  CONFIG :: config

definition initial_config :: config where
  "initial_config =
     \<lparr>outputFormat = ''png'', quality = JNumber (Num 90), maxFrameSize = 50 * 1024 * 1024,
      cleanupInterval = 30000, statsInterval = 5000\<rparr>"

text \<open>The state at start-up; \<open>now\<close> is the value of \<^verbatim>\<open>Date.now()\<close> then.\<close>

definition initial_state :: "int \<Rightarrow> server_state" where
  "initial_state now =
     \<lparr>latestFrameBuffer = None, frameCount = 0, clientCount = 0, bytesReceived = 0,
      lastFrameType = Waiting, serverStartTime = now, connectionErrors = 0,
      CONFIG = initial_config\<rparr>"

section \<open>Serving the frame\<close>

text \<open>
  The body of a response: bytes, a text, or the page of Express's error handler for an
  error that a handler threw (\<open>ErrorPage\<close>, with the message of the error).
\<close>

datatype payload = Bytes buffer | Text string | ErrorPage string

record response =
  status :: nat
  content_type :: string
  body :: payload

definition formats :: "string list" where
  "formats = [''png'', ''webp'', ''jpeg'']"

text \<open>The constant \<^verbatim>\<open>emptyFrame\<close> of the frame endpoint.\<close>

definition emptyFrame :: buffer where
  "emptyFrame =
     [137, 80, 78, 71, 13, 10, 26, 10, 0, 0, 0, 13, 73, 72, 68, 82,
      0, 0, 0, 1, 0, 0, 0, 1, 8, 2, 0, 0, 0, 144, 119, 83, 222]"

definition send_image :: "string \<Rightarrow> buffer \<Rightarrow> response" where
  "send_image format buf =
     \<lparr>status = 200, content_type = ''image/'' @ format, body = Bytes buf\<rparr>"

text \<open>
  An error thrown inside a route handler is answered by Express with status 500.
\<close>

definition server_error :: "string \<Rightarrow> response" where
  "server_error msg =
     \<lparr>status = 500, content_type = ''text/html; charset=utf-8'', body = ErrorPage msg\<rparr>"

text \<open>
  \<^verbatim>\<open>app.get('/frame.:format')\<close>. The stored Buffer is served when there is one and it is
  longer than 100 bytes; it is converted when the requested format is not the configured
  one. The \<^verbatim>\<open>catch\<close> of the conversion hangs on the promise: it sends the stored Buffer
  as it is when the promise is rejected, and it does not see an error thrown while the
  chain is built, which leaves the handler.
\<close>

definition get_frame :: "runtime \<Rightarrow> string \<Rightarrow> server_state \<Rightarrow> response" where
  "get_frame rt format s =
     (if format \<notin> set formats then
        \<lparr>status = 400, content_type = ''text/html; charset=utf-8'',
         body = Text ''Invalid format. Use png, webp, or jpeg''\<rparr>
      else
        (case latestFrameBuffer s of
           Some buf \<Rightarrow>
             if length buf > 100 then
               (if format \<noteq> outputFormat (CONFIG s) then
                  (case sharp rt buf (ToFormat format (quality (CONFIG s))) of
                     Resolved converted \<Rightarrow> send_image format converted
                   | Rejected err \<Rightarrow> send_image format buf
                   | Thrown err \<Rightarrow> server_error err)
                else send_image format buf)
             else send_image format emptyFrame
         | None \<Rightarrow> send_image format emptyFrame))"

section \<open>Configuration and clearing\<close>

text \<open>
  The JSON body of \<^verbatim>\<open>POST /config\<close>: each of the two fields is absent (\<open>None\<close>) or
  holds any JSON value.
\<close>

record config_body =
  body_outputFormat :: "json option"
  body_quality :: "json option"

record config_response =
  success :: bool
  config :: config

text \<open>JavaScript's truthiness of a JSON value.\<close>

fun truthy :: "json \<Rightarrow> bool" where
  "truthy JNull = False"
| "truthy (JBool b) = b"
| "truthy (JNumber n) = (n \<noteq> Num 0 \<and> n \<noteq> NaN)"
| "truthy (JString str) = (str \<noteq> [])"
| "truthy (JArray xs) = True"
| "truthy (JObject kvs) = True"

text \<open>
  The number that \<^verbatim>\<open>>=\<close> and \<^verbatim>\<open><=\<close> compare when the other side is a number:
  \<^verbatim>\<open>null\<close> is 0, \<^verbatim>\<open>false\<close> and \<^verbatim>\<open>true\<close> are 0 and 1, a number is itself, and a string, an
  array or an object is converted by the runtime.
\<close>

fun ToNumber :: "runtime \<Rightarrow> json \<Rightarrow> coerced" where
  "ToNumber rt JNull = Number (Num 0)"
| "ToNumber rt (JBool b) = Number (Num (if b then 1 else 0))"
| "ToNumber rt (JNumber n) = Number n"
| "ToNumber rt (JString str) = Number (string_to_number rt str)"
| "ToNumber rt (JArray xs) = object_to_number rt (JArray xs)"
| "ToNumber rt (JObject kvs) = object_to_number rt (JObject kvs)"

text \<open>\<^verbatim>\<open>n >= k\<close> and \<^verbatim>\<open>n <= k\<close> for a number \<open>n\<close> and a finite \<open>k\<close>; false on \<^verbatim>\<open>NaN\<close>.\<close>

fun ge_number :: "js_number \<Rightarrow> rat \<Rightarrow> bool" where
  "ge_number (Num r) k = (r \<ge> k)"
| "ge_number PosInfinity k = True"
| "ge_number NegInfinity k = False"
| "ge_number NaN k = False"

fun le_number :: "js_number \<Rightarrow> rat \<Rightarrow> bool" where
  "le_number (Num r) k = (r \<le> k)"
| "le_number PosInfinity k = False"
| "le_number NegInfinity k = True"
| "le_number NaN k = False"

text \<open>
  The test \<^verbatim>\<open>q && q >= 10 && q <= 100\<close> of the configuration handler; \<open>Inl\<close> carries the
  message of the \<^verbatim>\<open>TypeError\<close> that the comparison throws.
\<close>

definition quality_test :: "runtime \<Rightarrow> json \<Rightarrow> string + bool" where
  "quality_test rt q =
     (if \<not> truthy q then Inr False
      else (case ToNumber rt q of
              TypeError msg \<Rightarrow> Inl msg
            | Number n \<Rightarrow> Inr (ge_number n 10 \<and> le_number n 100)))"

text \<open>
  \<^verbatim>\<open>app.post('/config')\<close>. The first \<^verbatim>\<open>if\<close> tests that the format is truthy and is one
  of the three strings (\<^verbatim>\<open>includes\<close> compares without conversion, so only a string can
  match); the second is the test of the quality, and the value that passes is stored as
  it came. The response is the JSON echo, or (\<open>Inl\<close>) Express's error page with status 500
  when the test threw; the format is assigned before that.
\<close>

definition post_config ::
  "runtime \<Rightarrow> config_body \<Rightarrow> server_state \<Rightarrow> server_state \<times> (string + config_response)" where
  "post_config rt req s =
     (let c1 = (case body_outputFormat req of
                  Some (JString f) \<Rightarrow>
                    if f \<noteq> [] \<and> f \<in> set formats
                    then (CONFIG s)\<lparr>outputFormat := f\<rparr> else CONFIG s
                | _ \<Rightarrow> CONFIG s)
      in case body_quality req of
           None \<Rightarrow> (s\<lparr>CONFIG := c1\<rparr>, Inr \<lparr>success = True, config = c1\<rparr>)
         | Some q \<Rightarrow>
             (case quality_test rt q of
                Inl msg \<Rightarrow> (s\<lparr>CONFIG := c1\<rparr>, Inl msg)
              | Inr True \<Rightarrow>
                  (s\<lparr>CONFIG := c1\<lparr>quality := q\<rparr>\<rparr>,
                   Inr \<lparr>success = True, config = c1\<lparr>quality := q\<rparr>\<rparr>)
              | Inr False \<Rightarrow> (s\<lparr>CONFIG := c1\<rparr>, Inr \<lparr>success = True, config = c1\<rparr>)))"

text \<open>\<^verbatim>\<open>app.post('/clear')\<close>; the response is \<^verbatim>\<open>{ success: true }\<close>.\<close>

definition post_clear :: "server_state \<Rightarrow> server_state" where
  "post_clear s =
     s\<lparr>latestFrameBuffer := None, frameCount := 0, bytesReceived := 0,
       lastFrameType := BufferCleared\<rparr>"

section \<open>Ingestion\<close>

text \<open>JavaScript's \<^verbatim>\<open>data[i]\<close> on a Buffer: \<^verbatim>\<open>undefined\<close> out of range.\<close>

definition byte_at :: "buffer \<Rightarrow> nat \<Rightarrow> byte option" where
  "byte_at data i = (if i < length data then Some (data ! i) else None)"

definition startsWith :: "string \<Rightarrow> string \<Rightarrow> bool" where
  "startsWith str p \<longleftrightarrow> take (length p) str = p"

text \<open>\<^verbatim>\<open>str.indexOf(c)\<close>: the position of the first occurrence, or \<open>-1\<close>.\<close>

fun indexOf :: "string \<Rightarrow> char \<Rightarrow> int" where
  "indexOf [] c = - 1"
| "indexOf (x # xs) c =
     (if x = c then 0 else (let i = indexOf xs c in if i < 0 then - 1 else i + 1))"

text \<open>\<^verbatim>\<open>str.substring(start)\<close>: a negative start counts as 0, one beyond the end as the length.\<close>

definition substring :: "string \<Rightarrow> int \<Rightarrow> string" where
  "substring str start = drop (nat start) str"

text \<open>The two constants \<^verbatim>\<open>base64Start\<close> and \<^verbatim>\<open>base64Data\<close> of the message handler.\<close>

definition base64Start :: "string \<Rightarrow> int" where
  "base64Start dataString = indexOf dataString CHR '','' + 1"

definition base64Data :: "string \<Rightarrow> string" where
  "base64Data dataString = substring dataString (base64Start dataString)"

text \<open>
  The check for the data URL signature in the main server: more than 10 bytes, the first
  four of them \<^verbatim>\<open>0x64 0x61 0x74 0x61\<close>.
\<close>

definition data_url_signature :: "buffer \<Rightarrow> bool" where
  "data_url_signature data \<longleftrightarrow>
     length data > 10 \<and> byte_at data 0 = Some 0x64 \<and> byte_at data 1 = Some 0x61 \<and>
     byte_at data 2 = Some 0x74 \<and> byte_at data 3 = Some 0x61"

text \<open>
  The first stage of the handler, "Handle different data types": the values it leaves in
  the locals \<^verbatim>\<open>buffer\<close> and \<^verbatim>\<open>dataString\<close> (\<open>None\<close> for \<^verbatim>\<open>null\<close>).
\<close>

definition handle_data_types :: "runtime \<Rightarrow> raw_message \<Rightarrow> buffer option \<times> string option" where
  "handle_data_types rt data =
     (case data of
        BufferData d \<Rightarrow>
          if data_url_signature d then (None, Some (toString_utf8 rt d)) else (Some d, None)
      | StringData t \<Rightarrow> (None, Some t))"

text \<open>
  The choice of the encoder, written twice in the handler: the configured quality goes to
  WebP and JPEG, PNG gets compression level 6. \<open>convert\<close> is the chain with the
  \<^verbatim>\<open>toBuffer()\<close> that ends each of its branches.
\<close>

definition output_stage :: "config \<Rightarrow> sharp_output" where
  "output_stage cfg =
     (if outputFormat cfg = ''webp'' then Webp (quality cfg)
      else if outputFormat cfg = ''jpeg'' then Jpeg (quality cfg)
      else Png 6)"

text \<open>
  What a \<^verbatim>\<open>try\<close> around an awaited call sees of it: an error, thrown or from the rejected
  promise, or the bytes.
\<close>

fun caught :: "sharp_result \<Rightarrow> string + buffer" where
  "caught (Thrown msg) = Inl msg"
| "caught (Rejected msg) = Inl msg"
| "caught (Resolved frame) = Inr frame"

definition convert :: "runtime \<Rightarrow> config \<Rightarrow> buffer \<Rightarrow> string + buffer" where
  "convert rt cfg buf = caught (sharp rt buf (output_stage cfg))"

text \<open>The branch "Process data URL".\<close>

definition process_data_url :: "runtime \<Rightarrow> string \<Rightarrow> server_state \<Rightarrow> server_state" where
  "process_data_url rt dataString s =
     (if int (length dataString) > maxFrameSize (CONFIG s) then
        s\<lparr>lastFrameType := FrameTooLarge\<rparr>
      else
        (let s1 = s\<lparr>bytesReceived := bytesReceived s + int (length dataString)\<rparr> in
         case from_base64 rt (base64Data dataString) of
           Inl msg \<Rightarrow> s1\<lparr>lastFrameType := ConversionError msg\<rparr>
         | Inr buf \<Rightarrow>
             (case convert rt (CONFIG s1) buf of
                Inl msg \<Rightarrow> s1\<lparr>lastFrameType := ConversionError msg\<rparr>
              | Inr frame \<Rightarrow>
                  s1\<lparr>latestFrameBuffer := Some frame,
                     lastFrameType := DataImageConverted (outputFormat (CONFIG s1))\<rparr>)))"

text \<open>The branch "Handle raw buffer".\<close>

definition process_raw_buffer :: "runtime \<Rightarrow> buffer \<Rightarrow> server_state \<Rightarrow> server_state" where
  "process_raw_buffer rt buf s =
     (let s1 = s\<lparr>bytesReceived := bytesReceived s + int (length buf)\<rparr> in
      case convert rt (CONFIG s1) buf of
        Inl msg \<Rightarrow> s1\<lparr>lastFrameType := RawBufferError\<rparr>
      | Inr frame \<Rightarrow>
          s1\<lparr>latestFrameBuffer := Some frame,
             lastFrameType := RawBufferConverted (outputFormat (CONFIG s1))\<rparr>)"

text \<open>
  \<^verbatim>\<open>ws.on('message')\<close> of the main server. The first stage also sets \<^verbatim>\<open>lastFrameType\<close>
  to \<^verbatim>\<open>'raw buffer'\<close> where it keeps the Buffer. Nothing outside the two inner \<^verbatim>\<open>try\<close>
  blocks throws, so the outer \<^verbatim>\<open>catch\<close> (which would count a connection error) has no
  branch here.
\<close>

definition ws_message :: "runtime \<Rightarrow> raw_message \<Rightarrow> server_state \<Rightarrow> server_state" where
  "ws_message rt data s =
     (let s0 = s\<lparr>frameCount := frameCount s + 1\<rparr> in
      case handle_data_types rt data of
        (buffer, dataString) \<Rightarrow>
          (let s1 = (case buffer of Some buf \<Rightarrow> s0\<lparr>lastFrameType := RawBuffer\<rparr> | None \<Rightarrow> s0) in
           if (case dataString of Some str \<Rightarrow> startsWith str ''data:image'' | None \<Rightarrow> False)
           then (case dataString of Some str \<Rightarrow> process_data_url rt str s1 | None \<Rightarrow> s1)
           else
             (case buffer of
                Some buf \<Rightarrow> process_raw_buffer rt buf s1
              | None \<Rightarrow> s1\<lparr>lastFrameType := UnknownFormat\<rparr>)))"

text \<open>\<^verbatim>\<open>wss.on('connection')\<close>, \<^verbatim>\<open>ws.on('close')\<close> and \<^verbatim>\<open>ws.on('error')\<close>.\<close>

definition ws_connection :: "server_state \<Rightarrow> server_state" where
  "ws_connection s = s\<lparr>clientCount := clientCount s + 1\<rparr>"

definition ws_close :: "server_state \<Rightarrow> server_state" where
  "ws_close s = s\<lparr>clientCount := clientCount s - 1\<rparr>"

definition ws_error :: "server_state \<Rightarrow> server_state" where
  "ws_error s = s\<lparr>connectionErrors := connectionErrors s + 1\<rparr>"

section \<open>The server as a transition system\<close>

datatype event =
    Connection
  | Message raw_message
  | Close
  | SocketError
  | PostConfig config_body
  | PostClear
  | GetFrame string
  | GetStats
  | GetHealth
  | GetDashboard

text \<open>The state after one event; the four GET handlers only read the state.\<close>

fun step :: "runtime \<Rightarrow> server_state \<Rightarrow> event \<Rightarrow> server_state" where
  "step rt s Connection = ws_connection s"
| "step rt s (Message data) = ws_message rt data s"
| "step rt s Close = ws_close s"
| "step rt s SocketError = ws_error s"
| "step rt s (PostConfig req) = fst (post_config rt req s)"
| "step rt s PostClear = post_clear s"
| "step rt s (GetFrame format) = s"
| "step rt s GetStats = s"
| "step rt s GetHealth = s"
| "step rt s GetDashboard = s"

definition run :: "runtime \<Rightarrow> server_state \<Rightarrow> event list \<Rightarrow> server_state" where
  "run rt s evs = foldl (step rt) s evs"

section \<open>The PNG-only variant\<close>

text \<open>
  \<^verbatim>\<open>syphon-server-fixed.js\<close> has no configuration and no error counter. Its variables
  \<^verbatim>\<open>frameCount\<close>, \<^verbatim>\<open>clientCount\<close> and \<^verbatim>\<open>bytesReceived\<close> carry the suffix \<open>_sy\<close> here.
  The texts of \<^verbatim>\<open>lastDataType\<close>: \<^verbatim>\<open>'waiting...'\<close>, \<^verbatim>\<open>'data:image/* (ok)'\<close>,
  \<^verbatim>\<open>'ERROR: ' + message\<close>, \<^verbatim>\<open>'unknown format'\<close> and \<^verbatim>\<open>'error'\<close>.
\<close>

datatype data_type =
    SyWaiting
  | SyDataImage
  | SyConversionError string
  | SyUnknownFormat
  | SyError

record syphon_state =
  latestImageBuffer :: "buffer option"
  frameCount_sy :: int
  clientCount_sy :: int
  bytesReceived_sy :: int
  lastDataType :: data_type

text \<open>\<^verbatim>\<open>app.get('/preview.png')\<close>; the placeholder is the same byte sequence.\<close>

definition get_preview_png :: "syphon_state \<Rightarrow> response" where
  "get_preview_png s =
     (case latestImageBuffer s of
        Some buf \<Rightarrow>
          if length buf > 100 then send_image ''png'' buf else send_image ''png'' emptyFrame
      | None \<Rightarrow> send_image ''png'' emptyFrame)"

text \<open>The signature check of the variant: the first four bytes, whatever the length.\<close>

definition data_signature_sy :: "buffer \<Rightarrow> bool" where
  "data_signature_sy data \<longleftrightarrow>
     byte_at data 0 = Some 0x64 \<and> byte_at data 1 = Some 0x61 \<and>
     byte_at data 2 = Some 0x74 \<and> byte_at data 3 = Some 0x61"

definition to_dataString_sy :: "runtime \<Rightarrow> raw_message \<Rightarrow> string option" where
  "to_dataString_sy rt data =
     (case data of
        BufferData d \<Rightarrow> if data_signature_sy d then Some (toString_utf8 rt d) else None
      | StringData t \<Rightarrow> Some t)"

text \<open>
  \<^verbatim>\<open>ws.on('message')\<close> of the variant. The base64 decoding stands outside the inner
  \<^verbatim>\<open>try\<close>, so an error thrown there reaches the outer \<^verbatim>\<open>catch\<close>. A Buffer without the
  signature leaves both locals \<^verbatim>\<open>null\<close>: there is no branch for raw images.
\<close>

definition ws_message_sy :: "runtime \<Rightarrow> raw_message \<Rightarrow> syphon_state \<Rightarrow> syphon_state" where
  "ws_message_sy rt data s =
     (let s1 = s\<lparr>frameCount_sy := frameCount_sy s + 1\<rparr> in
      case to_dataString_sy rt data of
        Some dataString \<Rightarrow>
          if startsWith dataString ''data:image'' then
            (let s2 = s1\<lparr>bytesReceived_sy := bytesReceived_sy s1 + int (length dataString)\<rparr> in
             case from_base64 rt (base64Data dataString) of
               Inl msg \<Rightarrow> s2\<lparr>lastDataType := SyError\<rparr>
             | Inr buf \<Rightarrow>
                 (case caught (sharp rt buf (PngQuality 100)) of
                    Inl msg \<Rightarrow> s2\<lparr>lastDataType := SyConversionError msg\<rparr>
                  | Inr frame \<Rightarrow>
                      s2\<lparr>latestImageBuffer := Some frame, lastDataType := SyDataImage\<rparr>))
          else s1\<lparr>lastDataType := SyUnknownFormat\<rparr>
      | None \<Rightarrow> s1\<lparr>lastDataType := SyUnknownFormat\<rparr>)"

section \<open>Classification of a message\<close>

text \<open>
  The three ways a message can go through a handler, as the specification names them.
  \<open>classify\<close> is the chain \<^verbatim>\<open>if (dataString && ...) else if (buffer) else\<close> of the main
  server over the locals that \<open>handle_data_types\<close> sets; \<open>classify_sy\<close> is the
  \<^verbatim>\<open>if ... else\<close> of the variant.
\<close>

datatype ClassifiedPayload = DataURI string | RawBinary buffer | Unrecognized

definition classify :: "runtime \<Rightarrow> raw_message \<Rightarrow> ClassifiedPayload" where
  "classify rt data =
     (case handle_data_types rt data of
        (buffer, dataString) \<Rightarrow>
          if (case dataString of Some str \<Rightarrow> startsWith str ''data:image'' | None \<Rightarrow> False)
          then (case dataString of Some str \<Rightarrow> DataURI str | None \<Rightarrow> Unrecognized)
          else (case buffer of Some buf \<Rightarrow> RawBinary buf | None \<Rightarrow> Unrecognized))"

definition classify_sy :: "runtime \<Rightarrow> raw_message \<Rightarrow> ClassifiedPayload" where
  "classify_sy rt data =
     (case to_dataString_sy rt data of
        Some dataString \<Rightarrow>
          if startsWith dataString ''data:image'' then DataURI dataString else Unrecognized
      | None \<Rightarrow> Unrecognized)"

text \<open>
  The classifier in the specification's words: a textual message, or a binary one whose
  first 5 bytes are the ASCII bytes of \<^verbatim>\<open>data:\<close>, is read as text and is a data URI when it
  has the prefix \<^verbatim>\<open>data:image\<close>, unrecognized otherwise; every other binary message is a
  raw binary.
\<close>

definition spec_classify :: "runtime \<Rightarrow> raw_message \<Rightarrow> ClassifiedPayload" where
  "spec_classify rt data =
     (case data of
        StringData t \<Rightarrow> if startsWith t ''data:image'' then DataURI t else Unrecognized
      | BufferData d \<Rightarrow>
          if take 5 d = [0x64, 0x61, 0x74, 0x61, 0x3A] then
            (if startsWith (toString_utf8 rt d) ''data:image''
             then DataURI (toString_utf8 rt d) else Unrecognized)
          else RawBinary d)"

section \<open>The structure of a PNG datastream\<close>

text \<open>
  The PNG standard makes a datastream of the 8-byte signature and a series of chunks,
  each a 4-byte big-endian length, a 4-byte type, the data and a 4-byte CRC; the first
  chunk is IHDR, the last is IEND, and there is at least one IDAT chunk between them.
  \<open>png_chunk_types\<close> reads the chunk types off a byte sequence (\<open>None\<close> when a chunk is
  cut short); the CRCs are not checked.
\<close>

definition be32 :: "buffer \<Rightarrow> nat" where
  "be32 bs = foldl (\<lambda>n b. 256 * n + unat b) 0 bs"

function png_chunk_types :: "buffer \<Rightarrow> buffer list option" where
  "png_chunk_types bs =
     (if bs = [] then Some []
      else if length bs < 12 + be32 (take 4 bs) then None
      else map_option ((#) (take 4 (drop 4 bs)))
             (png_chunk_types (drop (12 + be32 (take 4 bs)) bs)))"
  by pat_completeness auto
termination
  by (relation "measure length") auto

definition png_signature :: buffer where
  "png_signature = [137, 80, 78, 71, 13, 10, 26, 10]"

definition IHDR :: buffer where "IHDR = [73, 72, 68, 82]"
definition IDAT :: buffer where "IDAT = [73, 68, 65, 84]"
definition IEND :: buffer where "IEND = [73, 69, 78, 68]"

definition png_datastream :: "buffer \<Rightarrow> bool" where
  "png_datastream bs \<longleftrightarrow>
     take 8 bs = png_signature \<and>
     (case png_chunk_types (drop 8 bs) of
        None \<Rightarrow> False
      | Some types \<Rightarrow>
          types \<noteq> [] \<and> hd types = IHDR \<and> last types = IEND \<and> IDAT \<in> set types)"

text \<open>
  A complete PNG image of one pixel, of 69 bytes: signature, IHDR, one IDAT and IEND.
\<close>

definition one_pixel_png :: buffer where
  "one_pixel_png =
     [137, 80, 78, 71, 13, 10, 26, 10, 0, 0, 0, 13, 73, 72, 68, 82,
      0, 0, 0, 1, 0, 0, 0, 1, 8, 2, 0, 0, 0, 144, 119, 83, 222,
      0, 0, 0, 12, 73, 68, 65, 84, 8, 215, 99, 248, 207, 192, 0, 0, 3, 1, 1, 0, 24, 221, 141, 176,
      0, 0, 0, 0, 73, 69, 78, 68, 174, 66, 96, 130]"

text \<open>A complete PNG image of 6 by 6 pixels of noise, of 182 bytes.\<close>

definition noise_png :: buffer where
  "noise_png =
     [137, 80, 78, 71, 13, 10, 26, 10, 0, 0, 0, 13, 73, 72, 68, 82,
      0, 0, 0, 6, 0, 0, 0, 6, 8, 2, 0, 0, 0, 111, 174, 120,
      31, 0, 0, 0, 125, 73, 68, 65, 84, 120, 218, 1, 114, 0, 141, 255,
      0, 221, 251, 61, 127, 119, 90, 175, 65, 144, 12, 225, 254, 22, 155, 110,
      88, 48, 116, 0, 90, 19, 213, 76, 133, 110, 157, 129, 251, 59, 150, 69,
      155, 250, 227, 49, 238, 232, 0, 106, 173, 163, 229, 231, 123, 124, 242, 192,
      197, 246, 254, 193, 23, 175, 175, 5, 236, 0, 97, 38, 33, 176, 14, 104,
      247, 198, 110, 128, 120, 24, 110, 195, 90, 87, 241, 131, 0, 232, 247, 116,
      129, 189, 97, 224, 38, 109, 6, 92, 38, 253, 192, 248, 224, 9, 144, 0,
      64, 135, 157, 7, 196, 18, 168, 49, 213, 39, 83, 114, 175, 72, 95, 211,
      201, 240, 31, 238, 58, 97, 189, 122, 150, 249, 0, 0, 0, 0, 73, 69,
      78, 68, 174, 66, 96, 130]"

section \<open>A runtime to evaluate with\<close>

text \<open>
  Concrete stand-ins for the library calls and conversions, for evaluating the handlers on
  concrete messages and requests. \<open>ascii_text\<close> reads bytes as characters (what UTF-8
  decoding does on ASCII);
  \<open>lenient_base64\<close> skips every character outside the base64 alphabets and stops at the
  first \<^verbatim>\<open>=\<close>, and never fails; \<open>toy_sharp\<close> throws on options that the image library
  refuses, accepts an input that starts with the signature of one of the three formats and
  answers with the signature of the requested format followed by the rest of the input
  (so a PNG image comes back as it is from a PNG stage).
\<close>

definition ascii_text :: "buffer \<Rightarrow> string" where
  "ascii_text bs = map (\<lambda>b. char_of (unat b)) bs"

definition ascii_bytes :: "string \<Rightarrow> buffer" where
  "ascii_bytes str = map (\<lambda>c. of_nat (of_char c)) str"

definition unbase64 :: "char \<Rightarrow> nat option" where
  "unbase64 c =
     (let n = (of_char c :: nat) in
      if 65 \<le> n \<and> n \<le> 90 then Some (n - 65)
      else if 97 \<le> n \<and> n \<le> 122 then Some (n - 71)
      else if 48 \<le> n \<and> n \<le> 57 then Some (n + 4)
      else if n = 43 \<or> n = 45 then Some 62
      else if n = 47 \<or> n = 95 then Some 63
      else None)"

fun sextets :: "string \<Rightarrow> nat list" where
  "sextets [] = []"
| "sextets (c # cs) =
     (if c = CHR ''='' then []
      else (case unbase64 c of Some v \<Rightarrow> v # sextets cs | None \<Rightarrow> sextets cs))"

fun octets :: "nat list \<Rightarrow> buffer" where
  "octets (a # b # c # d # rest) =
     of_nat (4 * a + b div 16) # of_nat (16 * (b mod 16) + c div 4) #
     of_nat (64 * (c mod 4) + d) # octets rest"
| "octets [a, b, c] = [of_nat (4 * a + b div 16), of_nat (16 * (b mod 16) + c div 4)]"
| "octets [a, b] = [of_nat (4 * a + b div 16)]"
| "octets rest = []"

definition lenient_base64 :: "string \<Rightarrow> string + buffer" where
  "lenient_base64 str = Inr (octets (sextets str))"

definition magic :: "string \<Rightarrow> buffer" where
  "magic format =
     (if format = ''png'' then [137, 80, 78, 71]
      else if format = ''jpeg'' then [255, 216, 255, 224]
      else [82, 73, 70, 70])"

text \<open>
  The options check of the stand-in: a quality is an integer from 1 to 100 (from 0 for
  PNG), a compression level an integer from 0 to 9.
\<close>

fun integer_between :: "int \<Rightarrow> int \<Rightarrow> json \<Rightarrow> bool" where
  "integer_between lo hi (JNumber (Num r)) =
     (r = of_int \<lfloor>r\<rfloor> \<and> of_int lo \<le> r \<and> r \<le> of_int hi)"
| "integer_between lo hi other = False"

fun valid_options :: "sharp_output \<Rightarrow> bool" where
  "valid_options (Webp q) = integer_between 1 100 q"
| "valid_options (Jpeg q) = integer_between 1 100 q"
| "valid_options (Png l) = (0 \<le> l \<and> l \<le> 9)"
| "valid_options (PngQuality q) = (0 \<le> q \<and> q \<le> 100)"
| "valid_options (ToFormat f q) =
     (if f = ''png'' then integer_between 0 100 q else integer_between 1 100 q)"

definition toy_sharp :: "buffer \<Rightarrow> sharp_output \<Rightarrow> sharp_result" where
  "toy_sharp input out =
     (if \<not> valid_options out then Thrown ''Expected integer between 1 and 100 for quality''
      else if take 4 input \<in> set (map magic formats)
      then Resolved (magic (output_format out) @ drop 4 input)
      else Rejected ''Input buffer contains unsupported image format'')"

text \<open>
  The conversions of the stand-in: a string of decimal digits is its value, the empty
  string is 0 and every other string is \<^verbatim>\<open>NaN\<close>; an object with a property
  \<^verbatim>\<open>toString\<close> (which, coming from JSON, is not a function) has no primitive value, an
  array of one number or one string converts as that element does, and every other array
  or object is \<^verbatim>\<open>NaN\<close>.
\<close>

fun digits_value :: "string \<Rightarrow> nat \<Rightarrow> nat option" where
  "digits_value [] acc = Some acc"
| "digits_value (c # cs) acc =
     (if 48 \<le> (of_char c :: nat) \<and> (of_char c :: nat) \<le> 57
      then digits_value cs (10 * acc + (of_char c - 48)) else None)"

definition toy_string_to_number :: "string \<Rightarrow> js_number" where
  "toy_string_to_number str =
     (case digits_value str 0 of Some n \<Rightarrow> Num (of_nat n) | None \<Rightarrow> NaN)"

fun toy_object_to_number :: "json \<Rightarrow> coerced" where
  "toy_object_to_number (JObject kvs) =
     (if ''toString'' \<in> set (map fst kvs)
      then TypeError ''Cannot convert object to primitive value'' else Number NaN)"
| "toy_object_to_number (JArray [JNumber n]) = Number n"
| "toy_object_to_number (JArray [JString str]) = Number (toy_string_to_number str)"
| "toy_object_to_number other = Number NaN"

definition toy_runtime :: runtime where
  "toy_runtime =
     \<lparr>toString_utf8 = ascii_text, from_base64 = lenient_base64, sharp = toy_sharp,
      string_to_number = toy_string_to_number, object_to_number = toy_object_to_number\<rparr>"

section \<open>Facts about the stand-in runtime\<close>

lemma length_magic: "length (magic format) = 4"
  by (simp add: magic_def)

lemma toy_sharp_magic:
  "format \<in> set formats \<Longrightarrow> valid_options out \<Longrightarrow>
     toy_sharp (magic format @ rest) out = Resolved (magic (output_format out) @ rest)"
  by (simp add: toy_sharp_def length_magic)

lemma toy_sharp_rejects:
  "take 4 input \<notin> set (map magic formats) \<Longrightarrow> valid_options out \<Longrightarrow>
     toy_sharp input out = Rejected ''Input buffer contains unsupported image format''"
  by (simp add: toy_sharp_def)

lemma toy_sharp_throws:
  "\<not> valid_options out \<Longrightarrow>
     toy_sharp input out = Thrown ''Expected integer between 1 and 100 for quality''"
  by (simp add: toy_sharp_def)

lemma toy_sharp_png: "valid_options out \<Longrightarrow> output_format out = ''png'' \<Longrightarrow>
    toy_sharp one_pixel_png out = Resolved one_pixel_png \<and> toy_sharp noise_png out = Resolved noise_png"
  by (simp add: toy_sharp_def one_pixel_png_def noise_png_def magic_def formats_def)

lemma length_pngs: "length one_pixel_png = 69" "length noise_png = 182"
  by (simp_all add: one_pixel_png_def noise_png_def)

lemma valid_initial_quality:
  "integer_between 0 100 (JNumber (Num 90))" "integer_between 1 100 (JNumber (Num 90))"
  by simp_all

lemma ascii_text_bytes: "ascii_text (ascii_bytes str) = str"
  by (induction str) (simp_all add: ascii_text_def ascii_bytes_def unat_of_nat)

lemma decode_signature: "lenient_base64 ''iVBORw0KGgo='' = Inr [137, 80, 78, 71, 13, 10, 26, 10]"
  by (simp add: lenient_base64_def unbase64_def)

section \<open>Facts about the message handler\<close>

lemma data_url_signature_iff:
  "data_url_signature d \<longleftrightarrow> length d > 10 \<and> take 4 d = [0x64, 0x61, 0x74, 0x61]"
proof (cases "length d > 10")
  case False
  then show ?thesis by (simp add: data_url_signature_def)
next
  case True
  then obtain a b c e rest where d: "d = a # b # c # e # rest"
    by (cases d; simp; cases "tl d"; simp; cases "tl (tl d)"; simp; cases "tl (tl (tl d))"; simp)
  show ?thesis
    using True by (auto simp add: d data_url_signature_def byte_at_def)
qed

lemma ws_message_text:
  "ws_message rt (StringData t) s =
     (if startsWith t ''data:image''
      then process_data_url rt t (s\<lparr>frameCount := frameCount s + 1\<rparr>)
      else s\<lparr>frameCount := frameCount s + 1, lastFrameType := UnknownFormat\<rparr>)"
  by (simp add: ws_message_def handle_data_types_def)

lemma ws_message_signed:
  "data_url_signature d \<Longrightarrow>
     ws_message rt (BufferData d) s =
       (if startsWith (toString_utf8 rt d) ''data:image''
        then process_data_url rt (toString_utf8 rt d) (s\<lparr>frameCount := frameCount s + 1\<rparr>)
        else s\<lparr>frameCount := frameCount s + 1, lastFrameType := UnknownFormat\<rparr>)"
  by (simp add: ws_message_def handle_data_types_def)

lemma ws_message_raw:
  "\<not> data_url_signature d \<Longrightarrow>
     ws_message rt (BufferData d) s =
       process_raw_buffer rt d (s\<lparr>frameCount := frameCount s + 1, lastFrameType := RawBuffer\<rparr>)"
  by (simp add: ws_message_def handle_data_types_def)

lemma not_signature_magic: "format \<in> set formats \<Longrightarrow> \<not> data_url_signature (magic format @ rest)"
  by (auto simp add: data_url_signature_iff magic_def formats_def)

lemma indexOf_absent: "c \<notin> set str \<Longrightarrow> indexOf str c = - 1"
  by (induction str) (auto simp: Let_def)

lemma indexOf_present:
  "c \<in> set str \<Longrightarrow>
     0 \<le> indexOf str c \<and> nat (indexOf str c) < length str \<and> str ! nat (indexOf str c) = c \<and>
     c \<notin> set (take (nat (indexOf str c)) str)"
proof (induction str)
  case Nil
  then show ?case by simp
next
  case (Cons x xs)
  show ?case
  proof (cases "x = c")
    case True
    then show ?thesis by simp
  next
    case False
    with Cons.prems have in_xs: "c \<in> set xs" by simp
    from Cons.IH [OF in_xs] have ih: "0 \<le> indexOf xs c" "nat (indexOf xs c) < length xs"
      "xs ! nat (indexOf xs c) = c" "c \<notin> set (take (nat (indexOf xs c)) xs)" by simp_all
    have eq: "indexOf (x # xs) c = indexOf xs c + 1"
      using False ih(1) by (simp add: Let_def)
    have n: "nat (indexOf xs c + 1) = Suc (nat (indexOf xs c))"
      using ih(1) by simp
    show ?thesis
      using False ih by (simp add: eq n)
  qed
qed

lemma base64Data_no_comma: "CHR '','' \<notin> set str \<Longrightarrow> base64Data str = str"
  by (simp add: base64Data_def base64Start_def substring_def indexOf_absent)

lemma base64Data_after_comma:
  assumes "CHR '','' \<in> set str"
  shows "\<exists>pre. str = pre @ CHR '','' # base64Data str \<and> CHR '','' \<notin> set pre"
proof -
  let ?i = "nat (indexOf str CHR '','')"
  from indexOf_present [OF assms]
  have i: "0 \<le> indexOf str CHR '',''" "?i < length str" "str ! ?i = CHR '',''"
    "CHR '','' \<notin> set (take ?i str)" by simp_all
  have "nat (indexOf str CHR '','' + 1) = Suc ?i" using i(1) by simp
  then have "base64Data str = drop (Suc ?i) str"
    by (simp add: base64Data_def base64Start_def substring_def)
  moreover have "str = take ?i str @ str ! ?i # drop (Suc ?i) str"
    using i(2) by (simp add: id_take_nth_drop)
  ultimately have "str = take ?i str @ CHR '','' # base64Data str"
    using i(3) by simp
  with i(4) show ?thesis by blast
qed

lemma base64Data_split: "CHR '','' \<notin> set pre \<Longrightarrow> base64Data (pre @ CHR '','' # rest) = rest"
proof -
  assume pre: "CHR '','' \<notin> set pre"
  have "indexOf (pre @ CHR '','' # rest) CHR '','' = int (length pre)"
    using pre by (induction pre) (auto simp: Let_def)
  then show ?thesis
    by (simp add: base64Data_def base64Start_def substring_def nat_add_distrib)
qed

lemma classify_DataURI:
  assumes "classify rt data = DataURI str"
  shows "ws_message rt data s = process_data_url rt str (s\<lparr>frameCount := frameCount s + 1\<rparr>)"
proof (cases data)
  case (StringData t)
  with assms show ?thesis
    by (auto simp add: classify_def handle_data_types_def ws_message_text split: if_splits)
next
  case (BufferData d)
  show ?thesis
  proof (cases "data_url_signature d")
    case True
    with assms BufferData show ?thesis
      by (auto simp add: classify_def handle_data_types_def ws_message_signed split: if_splits)
  next
    case False
    with assms BufferData show ?thesis
      by (simp add: classify_def handle_data_types_def)
  qed
qed

lemma classify_data_url:
  "data = StringData str \<or> (data = BufferData d \<and> data_url_signature d \<and> toString_utf8 rt d = str) \<Longrightarrow>
   startsWith str ''data:image'' \<Longrightarrow> classify rt data = DataURI str"
  by (auto simp add: classify_def handle_data_types_def)

lemma process_data_url_accepted:
  assumes "int (length str) \<le> maxFrameSize (CONFIG s)"
  shows "process_data_url rt str s =
     (case from_base64 rt (base64Data str) of
        Inl msg \<Rightarrow> s\<lparr>bytesReceived := bytesReceived s + int (length str),
                    lastFrameType := ConversionError msg\<rparr>
      | Inr decoded \<Rightarrow>
          (case caught (sharp rt decoded (output_stage (CONFIG s))) of
             Inl msg \<Rightarrow> s\<lparr>bytesReceived := bytesReceived s + int (length str),
                         lastFrameType := ConversionError msg\<rparr>
           | Inr frame \<Rightarrow> s\<lparr>bytesReceived := bytesReceived s + int (length str),
                           latestFrameBuffer := Some frame,
                           lastFrameType := DataImageConverted (outputFormat (CONFIG s))\<rparr>))"
  using assms by (simp add: process_data_url_def convert_def Let_def split: sum.split)

lemma data_signature_sy_iff: "data_signature_sy d \<longleftrightarrow> take 4 d = [0x64, 0x61, 0x74, 0x61]"
proof (cases "length d \<ge> 4")
  case False
  then have "byte_at d 3 = None" by (simp add: byte_at_def)
  moreover from False have "length (take 4 d) \<noteq> 4" by simp
  then have "take 4 d \<noteq> [0x64, 0x61, 0x74, 0x61]" by auto
  ultimately show ?thesis by (simp add: data_signature_sy_def)
next
  case True
  then obtain a b c e rest where d: "d = a # b # c # e # rest"
    by (cases d; simp; cases "tl d"; simp; cases "tl (tl d)"; simp; cases "tl (tl (tl d))"; simp)
  show ?thesis
    by (auto simp add: d data_signature_sy_def byte_at_def)
qed

lemma process_raw_buffer_eq:
  "process_raw_buffer rt buf s =
     (case caught (sharp rt buf (output_stage (CONFIG s))) of
        Inl msg \<Rightarrow> s\<lparr>bytesReceived := bytesReceived s + int (length buf),
                    lastFrameType := RawBufferError\<rparr>
      | Inr frame \<Rightarrow> s\<lparr>bytesReceived := bytesReceived s + int (length buf),
                      latestFrameBuffer := Some frame,
                      lastFrameType := RawBufferConverted (outputFormat (CONFIG s))\<rparr>)"
  by (simp add: process_raw_buffer_def convert_def Let_def split: sum.split)

lemma ws_message_classify:
  "ws_message rt data s =
     (case classify rt data of
        DataURI str \<Rightarrow> process_data_url rt str (s\<lparr>frameCount := frameCount s + 1\<rparr>)
      | RawBinary buf \<Rightarrow>
          process_raw_buffer rt buf (s\<lparr>frameCount := frameCount s + 1, lastFrameType := RawBuffer\<rparr>)
      | Unrecognized \<Rightarrow> s\<lparr>frameCount := frameCount s + 1, lastFrameType := UnknownFormat\<rparr>)"
  by (cases data) (simp_all add: ws_message_def classify_def handle_data_types_def)

lemma toy_ingest_png:
  "ws_message toy_runtime (BufferData (magic ''png'' @ rest)) (initial_state now)
     = (initial_state now)\<lparr>frameCount := 1, bytesReceived := int (length rest) + 4,
          latestFrameBuffer := Some (magic ''png'' @ rest),
          lastFrameType := RawBufferConverted ''png''\<rparr>"
  by (simp add: ws_message_raw not_signature_magic process_raw_buffer_def convert_def
      output_stage_def initial_state_def initial_config_def toy_runtime_def toy_sharp_magic
      formats_def length_magic)

lemma data_url_size_limit:
  assumes "classify rt data = DataURI str"
  shows "(int (length str) > maxFrameSize (CONFIG s) \<longrightarrow>
            ws_message rt data s = s\<lparr>frameCount := frameCount s + 1, lastFrameType := FrameTooLarge\<rparr>) \<and>
         (int (length str) \<le> maxFrameSize (CONFIG s) \<longrightarrow>
            bytesReceived (ws_message rt data s) = bytesReceived s + int (length str) \<and>
            lastFrameType (ws_message rt data s) \<noteq> FrameTooLarge)"
  by (auto simp add: classify_DataURI [OF assms] process_data_url_def Let_def split: sum.split)

lemma raw_buffer_no_limit:
  assumes "classify rt data = RawBinary buf"
  shows "bytesReceived (ws_message rt data s) = bytesReceived s + int (length buf) \<and>
         lastFrameType (ws_message rt data s) \<noteq> FrameTooLarge"
  using assms by (simp add: ws_message_classify process_raw_buffer_eq split: sum.split)

lemma ws_message_CONFIG: "CONFIG (ws_message rt data s) = CONFIG s"
  by (simp add: ws_message_classify process_data_url_def process_raw_buffer_eq Let_def
      split: ClassifiedPayload.split sum.split)

lemma ws_message_store:
  "latestFrameBuffer (ws_message rt data s) = latestFrameBuffer s \<or>
   (\<exists>f. lastFrameType (ws_message rt data s) = DataImageConverted f \<or>
        lastFrameType (ws_message rt data s) = RawBufferConverted f)"
  by (simp add: ws_message_classify process_data_url_def process_raw_buffer_eq Let_def
      split: ClassifiedPayload.split sum.split)

lemma get_frame_cong:
  assumes "latestFrameBuffer s' = latestFrameBuffer s" and "CONFIG s' = CONFIG s"
  shows "get_frame rt format s' = get_frame rt format s"
  unfolding get_frame_def assms by (rule refl)

lemma error_window:
  assumes "\<forall>f. lastFrameType (ws_message rt data s) \<noteq> DataImageConverted f \<and>
               lastFrameType (ws_message rt data s) \<noteq> RawBufferConverted f"
  shows "get_frame rt format (ws_message rt data s) = get_frame rt format s"
  using assms ws_message_store [of rt data s]
  by (intro get_frame_cong ws_message_CONFIG) blast

lemma ws_message_counters:
  "frameCount (ws_message rt data s) = frameCount s + 1 \<and>
   bytesReceived s \<le> bytesReceived (ws_message rt data s) \<and>
   connectionErrors (ws_message rt data s) = connectionErrors s"
  by (simp add: ws_message_classify process_data_url_def process_raw_buffer_eq Let_def
      split: ClassifiedPayload.split sum.split)

lemma post_config_state:
  "fst (post_config rt req s) = s\<lparr>CONFIG := CONFIG (fst (post_config rt req s))\<rparr>"
  by (simp add: post_config_def Let_def split: option.split sum.split bool.split)

lemma step_counters:
  "(ev \<noteq> PostClear \<longrightarrow>
      frameCount s \<le> frameCount (step rt s ev) \<and> bytesReceived s \<le> bytesReceived (step rt s ev)) \<and>
   connectionErrors s \<le> connectionErrors (step rt s ev)"
proof (cases ev)
  case (Message data)
  then show ?thesis using ws_message_counters [of rt data s] by simp
next
  case (PostConfig req)
  have "frameCount (fst (post_config rt req s)) = frameCount s"
    "bytesReceived (fst (post_config rt req s)) = bytesReceived s"
    "connectionErrors (fst (post_config rt req s)) = connectionErrors s"
    by (subst post_config_state, simp)+
  with PostConfig show ?thesis by simp
qed (simp_all add: ws_connection_def ws_close_def ws_error_def post_clear_def)

section \<open>Properties of the frame endpoint\<close>

text \<open>What the endpoint sends for one of the three formats, by cases on the store.\<close>

lemma get_frame_valid:
  assumes "format \<in> set formats"
  shows "get_frame rt format s =
     (case latestFrameBuffer s of
        None \<Rightarrow> send_image format emptyFrame
      | Some buf \<Rightarrow>
          if length buf \<le> 100 then send_image format emptyFrame
          else if format = outputFormat (CONFIG s) then send_image format buf
          else (case sharp rt buf (ToFormat format (quality (CONFIG s))) of
                  Resolved converted \<Rightarrow> send_image format converted
                | Rejected err \<Rightarrow> send_image format buf
                | Thrown err \<Rightarrow> server_error err))"
  using assms by (simp add: get_frame_def split: option.split sharp_result.split)

text \<open>
  The endpoint answers a request for one of the three formats with status 200, unless the
  conversion throws while its chain is built; then the answer is status 500.
\<close>

lemma get_frame_status:
  assumes "format \<in> set formats"
  shows "status (get_frame rt format s) =
     (case latestFrameBuffer s of
        None \<Rightarrow> 200
      | Some buf \<Rightarrow>
          if length buf > 100 \<and> format \<noteq> outputFormat (CONFIG s) \<and>
             (\<exists>err. sharp rt buf (ToFormat format (quality (CONFIG s))) = Thrown err)
          then 500 else 200)"
  by (auto simp add: get_frame_valid [OF assms] send_image_def server_error_def
      split: option.split sharp_result.split)

text \<open>
  An error thrown while the conversion chain is built leaves the handler: the answer is
  status 500 with an error page.
\<close>

lemma get_frame_thrown:
  assumes "format \<in> set formats" and "latestFrameBuffer s = Some buf" and "length buf > 100"
    and "format \<noteq> outputFormat (CONFIG s)"
    and "sharp rt buf (ToFormat format (quality (CONFIG s))) = Thrown err"
  shows "get_frame rt format s = server_error err"
  using assms by (simp add: get_frame_valid)

lemma toy_ingest_real:
  "ws_message toy_runtime (BufferData one_pixel_png) (initial_state now)
     = (initial_state now)\<lparr>frameCount := 1, bytesReceived := 69,
          latestFrameBuffer := Some one_pixel_png, lastFrameType := RawBufferConverted ''png''\<rparr>"
  "ws_message toy_runtime (BufferData noise_png) (initial_state now)
     = (initial_state now)\<lparr>frameCount := 1, bytesReceived := 182,
          latestFrameBuffer := Some noise_png, lastFrameType := RawBufferConverted ''png''\<rparr>"
proof -
  have raw: "\<not> data_url_signature one_pixel_png" "\<not> data_url_signature noise_png"
    by (simp_all add: data_url_signature_iff one_pixel_png_def noise_png_def)
  have stage: "output_stage (CONFIG (initial_state now)) = Png 6"
    "outputFormat (CONFIG (initial_state now)) = ''png''"
    "frameCount (initial_state now) = 0" "bytesReceived (initial_state now) = 0"
    by (simp_all add: output_stage_def initial_state_def initial_config_def)
  have encoded: "sharp toy_runtime one_pixel_png (Png 6) = Resolved one_pixel_png"
    "sharp toy_runtime noise_png (Png 6) = Resolved noise_png"
    using toy_sharp_png [of "Png 6"] by (simp_all add: toy_runtime_def)
  show "ws_message toy_runtime (BufferData one_pixel_png) (initial_state now)
     = (initial_state now)\<lparr>frameCount := 1, bytesReceived := 69,
          latestFrameBuffer := Some one_pixel_png, lastFrameType := RawBufferConverted ''png''\<rparr>"
    by (simp add: ws_message_raw raw process_raw_buffer_eq stage encoded length_pngs)
  show "ws_message toy_runtime (BufferData noise_png) (initial_state now)
     = (initial_state now)\<lparr>frameCount := 1, bytesReceived := 182,
          latestFrameBuffer := Some noise_png, lastFrameType := RawBufferConverted ''png''\<rparr>"
    by (simp add: ws_message_raw raw process_raw_buffer_eq stage encoded length_pngs)
qed

text \<open>
  A run that ends in status 500: a PNG frame is stored, a request sets the quality to
  50.5 (a number from 10 to 100, so it is stored), and WebP is requested. The image library
  refuses the quality while the chain is built.
\<close>

lemma fractional_quality_500:
  "quality (CONFIG (run toy_runtime (initial_state 0)
       [Message (BufferData noise_png),
        PostConfig \<lparr>body_outputFormat = None, body_quality = Some (JNumber (Num (101 / 2)))\<rparr>]))
     = JNumber (Num (101 / 2)) \<and>
   status (get_frame toy_runtime ''webp'' (run toy_runtime (initial_state 0)
       [Message (BufferData noise_png),
        PostConfig \<lparr>body_outputFormat = None, body_quality = Some (JNumber (Num (101 / 2)))\<rparr>]))
     = 500"
proof -
  let ?s = "run toy_runtime (initial_state 0)
       [Message (BufferData noise_png),
        PostConfig \<lparr>body_outputFormat = None, body_quality = Some (JNumber (Num (101 / 2)))\<rparr>]"
  have s: "?s = (initial_state 0)\<lparr>frameCount := 1, bytesReceived := 182,
          latestFrameBuffer := Some noise_png, lastFrameType := RawBufferConverted ''png'',
          CONFIG := initial_config\<lparr>quality := JNumber (Num (101 / 2))\<rparr>\<rparr>"
    by (simp add: run_def toy_ingest_real)
      (simp add: post_config_def quality_test_def initial_state_def)
  have refused: "\<not> valid_options (ToFormat ''webp'' (JNumber (Num (101 / 2))))"
    by code_simp
  have thrown: "sharp toy_runtime noise_png (ToFormat ''webp'' (JNumber (Num (101 / 2))))
      = Thrown ''Expected integer between 1 and 100 for quality''"
    using refused by (simp add: toy_runtime_def toy_sharp_throws)
  show ?thesis
    unfolding s
    by (simp add: get_frame_valid formats_def length_pngs initial_config_def thrown server_error_def)
qed

text \<open>
  C10. A stored frame of at most 100 bytes is not served: the frame endpoint answers with
  status 200 and the built-in placeholder. A stored frame of more than 100 bytes is what
  the endpoint serves: as it is when the requested format is the configured one or the
  conversion is rejected, converted when the conversion succeeds. The preview endpoint of
  the PNG-only variant has the same threshold.
\<close>

theorem frame_threshold:
  "(format \<in> set formats \<and> latestFrameBuffer s = Some buf \<longrightarrow>
      (length buf \<le> 100 \<longrightarrow>
         status (get_frame rt format s) = 200 \<and>
         body (get_frame rt format s) = Bytes emptyFrame) \<and>
      (length buf > 100 \<longrightarrow>
         (format = outputFormat (CONFIG s) \<longrightarrow> body (get_frame rt format s) = Bytes buf) \<and>
         (\<forall>converted.
            format \<noteq> outputFormat (CONFIG s) \<and>
            sharp rt buf (ToFormat format (quality (CONFIG s))) = Resolved converted \<longrightarrow>
            body (get_frame rt format s) = Bytes converted) \<and>
         (\<forall>err.
            format \<noteq> outputFormat (CONFIG s) \<and>
            sharp rt buf (ToFormat format (quality (CONFIG s))) = Rejected err \<longrightarrow>
            body (get_frame rt format s) = Bytes buf))) \<and>
   (latestImageBuffer t = Some img \<longrightarrow>
      (length img \<le> 100 \<longrightarrow> body (get_preview_png t) = Bytes emptyFrame) \<and>
      (length img > 100 \<longrightarrow> body (get_preview_png t) = Bytes img))"
  by (auto simp add: get_frame_valid get_preview_png_def send_image_def)

theorem frame_threshold_witness:
  "body (get_frame toy_runtime ''webp'' ((initial_state 0)\<lparr>latestFrameBuffer := Some one_pixel_png\<rparr>))
     = Bytes emptyFrame \<and>
   body (get_frame toy_runtime ''png'' ((initial_state 0)\<lparr>latestFrameBuffer := Some noise_png\<rparr>))
     = Bytes noise_png \<and>
   body (get_preview_png \<lparr>latestImageBuffer = Some one_pixel_png, frameCount_sy = 1,
       clientCount_sy = 1, bytesReceived_sy = 114, lastDataType = SyDataImage\<rparr>)
     = Bytes emptyFrame \<and>
   body (get_preview_png \<lparr>latestImageBuffer = Some noise_png, frameCount_sy = 1,
       clientCount_sy = 1, bytesReceived_sy = 266, lastDataType = SyDataImage\<rparr>)
     = Bytes noise_png"
proof -
  let ?small = "(initial_state 0)\<lparr>latestFrameBuffer := Some one_pixel_png\<rparr>"
  let ?large = "(initial_state 0)\<lparr>latestFrameBuffer := Some noise_png\<rparr>"
  let ?t = "\<lparr>latestImageBuffer = Some one_pixel_png, frameCount_sy = 1,
       clientCount_sy = 1, bytesReceived_sy = 114, lastDataType = SyDataImage\<rparr>"
  let ?u = "\<lparr>latestImageBuffer = Some noise_png, frameCount_sy = 1,
       clientCount_sy = 1, bytesReceived_sy = 266, lastDataType = SyDataImage\<rparr>"
  have cfg: "outputFormat (CONFIG ?large) = ''png''"
    by (simp add: initial_state_def initial_config_def)
  show ?thesis
    using frame_threshold [of "''webp''" ?small one_pixel_png toy_runtime ?t one_pixel_png]
      frame_threshold [of "''png''" ?large noise_png toy_runtime ?u noise_png]
      cfg
    by (simp add: formats_def length_pngs)
qed

text \<open>
  C1, as the code has it. For a request of one of the three formats and a stored frame of
  more than 100 bytes: when the requested format is the configured output format the
  answer is status 200 with the stored bytes; otherwise the stored frame is converted to
  the requested format with the configured quality, and the answer is status 200 with the
  converted bytes when the conversion succeeds and with the stored bytes when its promise
  is rejected.
\<close>

theorem frame_served:
  assumes "format \<in> set formats" and "latestFrameBuffer s = Some buf" and "length buf > 100"
  shows "(format = outputFormat (CONFIG s) \<longrightarrow>
            status (get_frame rt format s) = 200 \<and> body (get_frame rt format s) = Bytes buf) \<and>
    (format \<noteq> outputFormat (CONFIG s) \<longrightarrow>
       (\<forall>converted. sharp rt buf (ToFormat format (quality (CONFIG s))) = Resolved converted \<longrightarrow>
          status (get_frame rt format s) = 200 \<and>
          body (get_frame rt format s) = Bytes converted) \<and>
       (\<forall>err. sharp rt buf (ToFormat format (quality (CONFIG s))) = Rejected err \<longrightarrow>
          status (get_frame rt format s) = 200 \<and> body (get_frame rt format s) = Bytes buf))"
  using assms(2,3) get_frame_valid [OF assms(1), of rt s] by (auto simp add: send_image_def)

text \<open>
  The claim as stated fails in two ways. A PNG image of one pixel is received and stored
  (69 bytes), yet the endpoint answers a request for PNG with the placeholder. And after a
  PNG image of 182 bytes is stored and the output format is set to WebP, a request for
  WebP is answered with the stored PNG bytes, not with their conversion to WebP.
\<close>

theorem frame_served_counterexample:
  "latestFrameBuffer (run toy_runtime (initial_state 0) [Message (BufferData one_pixel_png)])
     = Some one_pixel_png \<and>
   body (get_frame toy_runtime ''png''
      (run toy_runtime (initial_state 0) [Message (BufferData one_pixel_png)]))
     = Bytes emptyFrame \<and>
   emptyFrame \<noteq> one_pixel_png \<and>
   latestFrameBuffer
      (run toy_runtime (initial_state 0)
         [Message (BufferData noise_png),
          PostConfig \<lparr>body_outputFormat = Some (JString ''webp''), body_quality = None\<rparr>])
     = Some noise_png \<and>
   body (get_frame toy_runtime ''webp''
      (run toy_runtime (initial_state 0)
         [Message (BufferData noise_png),
          PostConfig \<lparr>body_outputFormat = Some (JString ''webp''), body_quality = None\<rparr>]))
     = Bytes noise_png \<and>
   take 4 noise_png = magic ''png'' \<and>
   sharp toy_runtime noise_png (ToFormat ''webp'' (JNumber (Num 90)))
     = Resolved (magic ''webp'' @ drop 4 noise_png) \<and>
   magic ''webp'' @ drop 4 noise_png \<noteq> noise_png"
proof -
  let ?s1 = "run toy_runtime (initial_state 0) [Message (BufferData one_pixel_png)]"
  let ?s2 = "run toy_runtime (initial_state 0)
         [Message (BufferData noise_png),
          PostConfig \<lparr>body_outputFormat = Some (JString ''webp''), body_quality = None\<rparr>]"
  have differ: "emptyFrame \<noteq> one_pixel_png"
    by (simp add: emptyFrame_def one_pixel_png_def)
  have s1: "?s1 = (initial_state 0)\<lparr>frameCount := 1, bytesReceived := 69,
          latestFrameBuffer := Some one_pixel_png, lastFrameType := RawBufferConverted ''png''\<rparr>"
    by (simp add: run_def toy_ingest_real)
  have s2: "?s2 = (initial_state 0)\<lparr>frameCount := 1, bytesReceived := 182,
          latestFrameBuffer := Some noise_png, lastFrameType := RawBufferConverted ''png'',
          CONFIG := initial_config\<lparr>outputFormat := ''webp''\<rparr>\<rparr>"
    by (simp add: run_def toy_ingest_real) (simp add: post_config_def formats_def initial_state_def Let_def)
  have a: "latestFrameBuffer ?s1 = Some one_pixel_png"
    by (simp add: s1)
  have b: "body (get_frame toy_runtime ''png'' ?s1) = Bytes emptyFrame"
    by (simp add: s1 get_frame_valid formats_def send_image_def length_pngs)
  have c: "latestFrameBuffer ?s2 = Some noise_png"
    by (simp add: s2)
  have d: "body (get_frame toy_runtime ''webp'' ?s2) = Bytes noise_png"
    by (simp add: s2 get_frame_valid formats_def send_image_def length_pngs)
  have e: "take 4 noise_png = magic ''png''"
    by (simp add: noise_png_def magic_def)
  have f: "sharp toy_runtime noise_png (ToFormat ''webp'' (JNumber (Num 90)))
      = Resolved (magic ''webp'' @ drop 4 noise_png)"
    by (simp add: toy_runtime_def toy_sharp_def formats_def) (simp add: noise_png_def magic_def)
  have g: "magic ''webp'' @ drop 4 noise_png \<noteq> noise_png"
    by (simp add: noise_png_def magic_def)
  show ?thesis
    using differ a b c d e f g by blast
qed

theorem frame_served_witness:
  "body (get_frame toy_runtime ''png'' ((initial_state 0)\<lparr>latestFrameBuffer := Some noise_png\<rparr>))
     = Bytes noise_png \<and>
   body (get_frame toy_runtime ''webp'' ((initial_state 0)\<lparr>latestFrameBuffer := Some noise_png\<rparr>))
     = Bytes (magic ''webp'' @ drop 4 noise_png) \<and>
   status (get_frame toy_runtime ''webp'' ((initial_state 0)\<lparr>latestFrameBuffer := Some noise_png\<rparr>))
     = 200 \<and>
   body (get_frame toy_runtime ''jpeg''
      ((initial_state 0)\<lparr>latestFrameBuffer := Some (0 # 0 # 0 # 0 # replicate 120 0)\<rparr>))
     = Bytes (0 # 0 # 0 # 0 # replicate 120 0)"
proof -
  let ?bad = "0 # 0 # 0 # 0 # replicate 120 (0 :: byte)"
  let ?s = "(initial_state 0)\<lparr>latestFrameBuffer := Some noise_png\<rparr>"
  let ?t = "(initial_state 0)\<lparr>latestFrameBuffer := Some ?bad\<rparr>"
  have cfg: "outputFormat (CONFIG ?s) = ''png''" "quality (CONFIG ?s) = JNumber (Num 90)"
    "outputFormat (CONFIG ?t) = ''png''" "quality (CONFIG ?t) = JNumber (Num 90)"
    by (simp_all add: initial_state_def initial_config_def)
  have converted: "sharp toy_runtime noise_png (ToFormat ''webp'' (JNumber (Num 90)))
      = Resolved (magic ''webp'' @ drop 4 noise_png)"
    by (simp add: toy_runtime_def toy_sharp_def formats_def) (simp add: noise_png_def magic_def)
  have failed: "sharp toy_runtime ?bad (ToFormat ''jpeg'' (JNumber (Num 90)))
      = Rejected ''Input buffer contains unsupported image format''"
    by (simp add: toy_runtime_def toy_sharp_rejects formats_def magic_def)
  show ?thesis
    using frame_served [of "''png''" ?s noise_png toy_runtime]
      frame_served [of "''webp''" ?s noise_png toy_runtime]
      frame_served [of "''jpeg''" ?t ?bad toy_runtime]
      cfg converted failed
    by (simp add: formats_def length_pngs)
qed

text \<open>
  The structure predicate is met by the complete image of one pixel, and the placeholder
  is that image cut after its 33rd byte.
\<close>

lemma one_pixel_png_datastream: "png_datastream one_pixel_png \<and> take 33 one_pixel_png = emptyFrame"
  by (simp add: png_datastream_def one_pixel_png_def png_signature_def be32_def IHDR_def IDAT_def
      IEND_def emptyFrame_def)

text \<open>
  C6 fails on the empty store. The frame endpoint answers a request for PNG with status
  200 and the placeholder, and the placeholder is not a PNG datastream: after the
  signature it holds the IHDR chunk and nothing else, neither image data nor the IEND
  chunk.
\<close>

theorem placeholder_not_png:
  "get_frame toy_runtime ''png'' (initial_state 0)
     = \<lparr>status = 200, content_type = ''image/png'', body = Bytes emptyFrame\<rparr> \<and>
   png_chunk_types (drop 8 emptyFrame) = Some [IHDR] \<and>
   \<not> png_datastream emptyFrame"
  by (simp add: get_frame_def formats_def initial_state_def send_image_def)
    (simp add: png_datastream_def emptyFrame_def png_signature_def be32_def IHDR_def IDAT_def IEND_def)

section \<open>Properties of the ingestion\<close>

text \<open>
  C5, as the code has it. For a data URI within the size limit the handler takes the text
  after the first comma, and the whole text when there is no comma, and hands it to the
  base64 decoder. When the decoder throws, the status is a conversion error and nothing
  reaches the image library; otherwise the decoded bytes are what the image library is
  called on.
\<close>

theorem base64_extraction:
  assumes "classify rt data = DataURI str" and "int (length str) \<le> maxFrameSize (CONFIG s)"
  shows "(CHR '','' \<in> set str \<longrightarrow>
            (\<exists>pre. str = pre @ CHR '','' # base64Data str \<and> CHR '','' \<notin> set pre)) \<and>
         (CHR '','' \<notin> set str \<longrightarrow> base64Data str = str) \<and>
         (\<forall>msg. from_base64 rt (base64Data str) = Inl msg \<longrightarrow>
            ws_message rt data s =
              s\<lparr>frameCount := frameCount s + 1,
                bytesReceived := bytesReceived s + int (length str),
                lastFrameType := ConversionError msg\<rparr>) \<and>
         (\<forall>decoded. from_base64 rt (base64Data str) = Inr decoded \<longrightarrow>
            ws_message rt data s =
              (case caught (sharp rt decoded (output_stage (CONFIG s))) of
                 Inl msg \<Rightarrow>
                   s\<lparr>frameCount := frameCount s + 1,
                     bytesReceived := bytesReceived s + int (length str),
                     lastFrameType := ConversionError msg\<rparr>
               | Inr frame \<Rightarrow>
                   s\<lparr>frameCount := frameCount s + 1,
                     bytesReceived := bytesReceived s + int (length str),
                     latestFrameBuffer := Some frame,
                     lastFrameType := DataImageConverted (outputFormat (CONFIG s))\<rparr>))"
proof -
  let ?s0 = "s\<lparr>frameCount := frameCount s + 1\<rparr>"
  have limit: "int (length str) \<le> maxFrameSize (CONFIG ?s0)"
    using assms(2) by simp
  have "ws_message rt data s = process_data_url rt str ?s0"
    using assms(1) by (rule classify_DataURI)
  then show ?thesis
    by (auto simp add: process_data_url_accepted [OF limit] base64Data_no_comma
        base64Data_after_comma split: sum.split)
qed

text \<open>
  The claim as stated fails on a data URI without a comma: no error is raised for the
  missing comma, the whole text is decoded as base64, and the bytes that come out are
  handed to the image library (whose error the status then carries).
\<close>

theorem base64_extraction_counterexample:
  "CHR '','' \<notin> set ''data:image/png;base64iVBORw0KGgo='' \<and>
   from_base64 toy_runtime (base64Data ''data:image/png;base64iVBORw0KGgo='')
     = Inr [117, 171, 90, 138, 102, 160, 123, 250, 103, 129, 182, 172, 123, 174,
            34, 84, 19, 145, 195, 66, 134, 130] \<and>
   ws_message toy_runtime (StringData ''data:image/png;base64iVBORw0KGgo='') (initial_state 0)
     = (initial_state 0)\<lparr>frameCount := 1, bytesReceived := 33,
          lastFrameType := ConversionError ''Input buffer contains unsupported image format''\<rparr>"
proof -
  let ?str = "''data:image/png;base64iVBORw0KGgo=''"
  have no_comma: "CHR '','' \<notin> set ?str"
    by simp
  have whole: "base64Data ?str = ?str"
    using no_comma by (rule base64Data_no_comma)
  have bytes: "lenient_base64 ?str
     = Inr [117, 171, 90, 138, 102, 160, 123, 250, 103, 129, 182, 172, 123, 174,
            34, 84, 19, 145, 195, 66, 134, 130]"
    by (simp add: lenient_base64_def unbase64_def)
  have rejected: "toy_sharp [117, 171, 90, 138, 102, 160, 123, 250, 103, 129, 182, 172, 123, 174,
            34, 84, 19, 145, 195, 66, 134, 130] (Png 6)
     = Rejected ''Input buffer contains unsupported image format''"
    by (simp add: toy_sharp_rejects formats_def magic_def)
  have handled: "ws_message toy_runtime (StringData ?str) (initial_state 0)
     = (initial_state 0)\<lparr>frameCount := 1, bytesReceived := 33,
          lastFrameType := ConversionError ''Input buffer contains unsupported image format''\<rparr>"
    unfolding ws_message_text process_data_url_def whole
    by (simp add: startsWith_def toy_runtime_def bytes convert_def output_stage_def rejected
        initial_state_def initial_config_def)
  have decoded: "from_base64 toy_runtime (base64Data ?str)
     = Inr [117, 171, 90, 138, 102, 160, 123, 250, 103, 129, 182, 172, 123, 174,
            34, 84, 19, 145, 195, 66, 134, 130]"
    unfolding whole by (simp add: toy_runtime_def bytes)
  show ?thesis
    using no_comma decoded handled by blast
qed

theorem base64_extraction_witness:
  "(\<exists>pre. ''data:image/png;base64,iVBORw0KGgo='' = pre @ CHR '','' # ''iVBORw0KGgo='' \<and>
       CHR '','' \<notin> set pre) \<and>
   ws_message toy_runtime (StringData ''data:image/png;base64,iVBORw0KGgo='') (initial_state 0)
     = (initial_state 0)\<lparr>frameCount := 1, bytesReceived := 34,
         latestFrameBuffer := Some [137, 80, 78, 71, 13, 10, 26, 10],
         lastFrameType := DataImageConverted ''png''\<rparr> \<and>
   base64Data ''data:image'' = ''data:image''"
proof -
  let ?str = "''data:image/png;base64,iVBORw0KGgo=''"
  let ?s = "initial_state 0"
  have rest: "base64Data ?str = ''iVBORw0KGgo=''"
    using base64Data_split [of "''data:image/png;base64''" "''iVBORw0KGgo=''"] by simp
  have c: "classify toy_runtime (StringData ?str) = DataURI ?str"
    by (rule classify_data_url) (simp_all add: startsWith_def)
  have c': "classify toy_runtime (StringData ''data:image'') = DataURI ''data:image''"
    by (rule classify_data_url) (simp_all add: startsWith_def)
  have limit: "int (length ?str) \<le> maxFrameSize (CONFIG ?s)"
    "int (length ''data:image'') \<le> maxFrameSize (CONFIG ?s)"
    by (simp_all add: initial_state_def initial_config_def)
  have decoded: "from_base64 toy_runtime ''iVBORw0KGgo='' = Inr [137, 80, 78, 71, 13, 10, 26, 10]"
    by (simp add: toy_runtime_def decode_signature)
  have stage: "output_stage (CONFIG ?s) = Png 6" "outputFormat (CONFIG ?s) = ''png''"
    by (simp_all add: output_stage_def initial_state_def initial_config_def)
  have encoded: "sharp toy_runtime [137, 80, 78, 71, 13, 10, 26, 10] (Png 6)
      = Resolved [137, 80, 78, 71, 13, 10, 26, 10]"
    using toy_sharp_magic [where format = "''png''" and rest = "[13, 10, 26, 10]" and out = "Png 6"]
    by (simp add: toy_runtime_def formats_def magic_def)
  have st: "frameCount ?s = 0" "bytesReceived ?s = 0"
    by (simp_all add: initial_state_def)
  show ?thesis
    using base64_extraction [OF c limit(1)] base64_extraction [OF c' limit(2)]
    unfolding rest
    by (simp add: decoded stage encoded st)
qed



text \<open>
  C4 fails on raw Buffers. The branch for data URLs compares the length with
  \<^verbatim>\<open>maxFrameSize\<close> (\<open>data_url_size_limit\<close>); the branch for raw Buffers does not
  (\<open>raw_buffer_no_limit\<close>). A raw Buffer of 52428801 bytes, one more than the limit, is
  counted in \<^verbatim>\<open>bytesReceived\<close>, converted and stored.
\<close>

theorem raw_buffer_over_limit:
  "int (length (magic ''png'' @ replicate 52428797 (0 :: byte)))
     = maxFrameSize (CONFIG (initial_state 0)) + 1 \<and>
   ws_message toy_runtime (BufferData (magic ''png'' @ replicate 52428797 0)) (initial_state 0)
     = (initial_state 0)\<lparr>frameCount := 1, bytesReceived := 52428801,
          latestFrameBuffer := Some (magic ''png'' @ replicate 52428797 0),
          lastFrameType := RawBufferConverted ''png''\<rparr>"
  by (simp add: toy_ingest_png length_magic) (simp add: initial_state_def initial_config_def)

section \<open>Properties of the classification\<close>

text \<open>
  C3, as the code has it. A textual message is a data URI exactly when it has the prefix
  \<^verbatim>\<open>data:image\<close>, and unrecognized otherwise. In the main server a binary message is read
  as text, and classified the same way, when it is longer than 10 bytes and its first 4
  bytes are the ASCII bytes of \<^verbatim>\<open>data\<close>; every other binary message is a raw binary, and
  its bytes are what the image library is called on. In the PNG-only variant a binary
  message is read as text when its first 4 bytes are those of \<^verbatim>\<open>data\<close>, and every other
  binary message is unrecognized. An unrecognized message only counts as a frame and sets
  the status to unknown format.
\<close>

theorem classification:
  "classify rt (StringData t) = (if startsWith t ''data:image'' then DataURI t else Unrecognized) \<and>
   (length d > 10 \<and> take 4 d = [0x64, 0x61, 0x74, 0x61] \<longrightarrow>
      classify rt (BufferData d) =
        (if startsWith (toString_utf8 rt d) ''data:image''
         then DataURI (toString_utf8 rt d) else Unrecognized)) \<and>
   (\<not> (length d > 10 \<and> take 4 d = [0x64, 0x61, 0x74, 0x61]) \<longrightarrow>
      classify rt (BufferData d) = RawBinary d \<and>
      ws_message rt (BufferData d) s =
        (case caught (sharp rt d (output_stage (CONFIG s))) of
           Inl msg \<Rightarrow>
             s\<lparr>frameCount := frameCount s + 1, bytesReceived := bytesReceived s + int (length d),
               lastFrameType := RawBufferError\<rparr>
         | Inr frame \<Rightarrow>
             s\<lparr>frameCount := frameCount s + 1, bytesReceived := bytesReceived s + int (length d),
               latestFrameBuffer := Some frame,
               lastFrameType := RawBufferConverted (outputFormat (CONFIG s))\<rparr>)) \<and>
   (classify rt data = Unrecognized \<longrightarrow>
      ws_message rt data s = s\<lparr>frameCount := frameCount s + 1, lastFrameType := UnknownFormat\<rparr>) \<and>
   classify_sy rt (StringData t) = (if startsWith t ''data:image'' then DataURI t else Unrecognized) \<and>
   (take 4 d = [0x64, 0x61, 0x74, 0x61] \<longrightarrow>
      classify_sy rt (BufferData d) =
        (if startsWith (toString_utf8 rt d) ''data:image''
         then DataURI (toString_utf8 rt d) else Unrecognized)) \<and>
   (take 4 d \<noteq> [0x64, 0x61, 0x74, 0x61] \<longrightarrow> classify_sy rt (BufferData d) = Unrecognized) \<and>
   (classify_sy rt data = Unrecognized \<longrightarrow>
      ws_message_sy rt data u =
        u\<lparr>frameCount_sy := frameCount_sy u + 1, lastDataType := SyUnknownFormat\<rparr>)"
proof -
  have textual: "classify rt (StringData t) = (if startsWith t ''data:image'' then DataURI t else Unrecognized)"
    by (simp add: classify_def handle_data_types_def)
  have signed: "classify rt (BufferData d) =
        (if startsWith (toString_utf8 rt d) ''data:image''
         then DataURI (toString_utf8 rt d) else Unrecognized)"
    if "data_url_signature d"
    using that by (simp add: classify_def handle_data_types_def)
  have raw: "classify rt (BufferData d) = RawBinary d" if "\<not> data_url_signature d"
    using that by (simp add: classify_def handle_data_types_def)
  have raw_handled: "ws_message rt (BufferData d) s =
        (case caught (sharp rt d (output_stage (CONFIG s))) of
           Inl msg \<Rightarrow>
             s\<lparr>frameCount := frameCount s + 1, bytesReceived := bytesReceived s + int (length d),
               lastFrameType := RawBufferError\<rparr>
         | Inr frame \<Rightarrow>
             s\<lparr>frameCount := frameCount s + 1, bytesReceived := bytesReceived s + int (length d),
               latestFrameBuffer := Some frame,
               lastFrameType := RawBufferConverted (outputFormat (CONFIG s))\<rparr>)"
    if "\<not> data_url_signature d"
    using that by (simp add: ws_message_raw process_raw_buffer_eq split: sum.split)
  have unknown: "ws_message rt data s = s\<lparr>frameCount := frameCount s + 1, lastFrameType := UnknownFormat\<rparr>"
    if "classify rt data = Unrecognized"
    using that by (simp add: ws_message_classify)
  have text_sy: "classify_sy rt (StringData t) = (if startsWith t ''data:image'' then DataURI t else Unrecognized)"
    by (simp add: classify_sy_def to_dataString_sy_def)
  have signed_sy: "classify_sy rt (BufferData d) =
        (if startsWith (toString_utf8 rt d) ''data:image''
         then DataURI (toString_utf8 rt d) else Unrecognized)"
    if "data_signature_sy d"
    using that by (simp add: classify_sy_def to_dataString_sy_def)
  have raw_sy: "classify_sy rt (BufferData d) = Unrecognized" if "\<not> data_signature_sy d"
    using that by (simp add: classify_sy_def to_dataString_sy_def)
  have unknown_sy: "ws_message_sy rt data u =
        u\<lparr>frameCount_sy := frameCount_sy u + 1, lastDataType := SyUnknownFormat\<rparr>"
    if "classify_sy rt data = Unrecognized"
    using that
    by (auto simp add: classify_sy_def ws_message_sy_def Let_def split: option.splits if_splits)
  show ?thesis
    using textual signed raw raw_handled unknown text_sy signed_sy raw_sy unknown_sy
    unfolding data_url_signature_iff data_signature_sy_iff
    by blast
qed

text \<open>
  The claim as stated fails on three binary messages. The 10 bytes of \<^verbatim>\<open>data:image\<close> start
  with \<^verbatim>\<open>data:\<close>, yet the main server takes them for a raw binary (they are not longer than
  10 bytes). The bytes of \<^verbatim>\<open>database-dump\<close> do not start with \<^verbatim>\<open>data:\<close>, yet the main
  server reads them as text and finds them unrecognized. The PNG signature does not start
  with \<^verbatim>\<open>data:\<close>, yet the variant finds it unrecognized: it has no raw binaries.
\<close>

theorem classification_counterexample:
  "spec_classify toy_runtime (BufferData (ascii_bytes ''data:image'')) = DataURI ''data:image'' \<and>
   classify toy_runtime (BufferData (ascii_bytes ''data:image'')) = RawBinary (ascii_bytes ''data:image'') \<and>
   spec_classify toy_runtime (BufferData (ascii_bytes ''database-dump''))
     = RawBinary (ascii_bytes ''database-dump'') \<and>
   classify toy_runtime (BufferData (ascii_bytes ''database-dump'')) = Unrecognized \<and>
   spec_classify toy_runtime (BufferData png_signature) = RawBinary png_signature \<and>
   classify_sy toy_runtime (BufferData png_signature) = Unrecognized"
proof -
  have a: "spec_classify toy_runtime (BufferData (ascii_bytes ''data:image'')) = DataURI ''data:image''"
    by (simp add: spec_classify_def toy_runtime_def ascii_text_bytes startsWith_def)
      (simp add: ascii_bytes_def)
  have b: "classify toy_runtime (BufferData (ascii_bytes ''data:image''))
      = RawBinary (ascii_bytes ''data:image'')"
    by (simp add: classify_def handle_data_types_def data_url_signature_iff ascii_bytes_def)
  have c: "spec_classify toy_runtime (BufferData (ascii_bytes ''database-dump''))
      = RawBinary (ascii_bytes ''database-dump'')"
    by (simp add: spec_classify_def ascii_bytes_def)
  have d: "classify toy_runtime (BufferData (ascii_bytes ''database-dump'')) = Unrecognized"
    by (simp add: classify_def handle_data_types_def toy_runtime_def ascii_text_bytes startsWith_def)
      (simp add: data_url_signature_iff ascii_bytes_def)
  have e: "spec_classify toy_runtime (BufferData png_signature) = RawBinary png_signature"
    by (simp add: spec_classify_def png_signature_def)
  have f: "classify_sy toy_runtime (BufferData png_signature) = Unrecognized"
    by (simp add: classify_sy_def to_dataString_sy_def data_signature_sy_iff png_signature_def)
  show ?thesis
    using a b c d e f by blast
qed

theorem classification_witness:
  "classify toy_runtime (StringData ''data:image/png;base64,AAAA'')
     = DataURI ''data:image/png;base64,AAAA'' \<and>
   classify toy_runtime (StringData ''hello'') = Unrecognized \<and>
   classify toy_runtime (BufferData (ascii_bytes ''data:image/png;base64,AAAA''))
     = DataURI ''data:image/png;base64,AAAA'' \<and>
   classify toy_runtime (BufferData png_signature) = RawBinary png_signature \<and>
   ws_message toy_runtime (BufferData png_signature) (initial_state 0)
     = (initial_state 0)\<lparr>frameCount := 1, bytesReceived := 8,
          latestFrameBuffer := Some png_signature, lastFrameType := RawBufferConverted ''png''\<rparr> \<and>
   classify_sy toy_runtime (BufferData (ascii_bytes ''data:image'')) = DataURI ''data:image'' \<and>
   classify_sy toy_runtime (BufferData png_signature) = Unrecognized"
proof -
  let ?uri = "''data:image/png;base64,AAAA''"
  have t1: "startsWith ?uri ''data:image''" "\<not> startsWith ''hello'' ''data:image''"
    "startsWith ''data:image'' ''data:image''"
    by (simp_all add: startsWith_def)
  have d1: "length (ascii_bytes ?uri) > 10 \<and> take 4 (ascii_bytes ?uri) = [0x64, 0x61, 0x74, 0x61]"
    "take 4 (ascii_bytes ''data:image'') = [0x64, 0x61, 0x74, 0x61]"
    by (simp_all add: ascii_bytes_def)
  have d2: "\<not> (length png_signature > 10 \<and> take 4 png_signature = [0x64, 0x61, 0x74, 0x61])"
    "take 4 png_signature \<noteq> [0x64, 0x61, 0x74, 0x61]"
    by (simp_all add: png_signature_def)
  have as_text: "toString_utf8 toy_runtime (ascii_bytes str) = str" for str
    by (simp add: toy_runtime_def ascii_text_bytes)
  have encoded: "sharp toy_runtime png_signature (output_stage (CONFIG (initial_state 0)))
      = Resolved png_signature"
    using toy_sharp_magic [where format = "''png''" and rest = "[13, 10, 26, 10]" and out = "Png 6"]
    by (simp add: toy_runtime_def formats_def magic_def png_signature_def output_stage_def
        initial_state_def initial_config_def)
  have st: "frameCount (initial_state 0) = 0" "bytesReceived (initial_state 0) = 0"
    "outputFormat (CONFIG (initial_state 0)) = ''png''" "length png_signature = 8"
    by (simp_all add: initial_state_def initial_config_def png_signature_def)
  show ?thesis
    using classification [where rt = toy_runtime and t = ?uri and d = "ascii_bytes ?uri"]
      classification [where rt = toy_runtime and t = "''hello''" and d = png_signature
        and s = "initial_state 0"]
      classification [where rt = toy_runtime and d = "ascii_bytes ''data:image''"]
      t1 d1 d2
    by (simp add: as_text encoded st)
qed

section \<open>Properties of the configuration, of clearing and of the counters\<close>





text \<open>
  C8, as the code has it. Clearing empties the store, sets the frame and byte counters to
  zero and sets the status text to buffer cleared; the error counter, the client count,
  the start time and the configuration stay, and clearing twice is clearing once.
\<close>

theorem clear_effect:
  "latestFrameBuffer (post_clear s) = None \<and> frameCount (post_clear s) = 0 \<and>
   bytesReceived (post_clear s) = 0 \<and> lastFrameType (post_clear s) = BufferCleared \<and>
   connectionErrors (post_clear s) = connectionErrors s \<and>
   clientCount (post_clear s) = clientCount s \<and>
   serverStartTime (post_clear s) = serverStartTime s \<and>
   CONFIG (post_clear s) = CONFIG s \<and>
   post_clear (post_clear s) = post_clear s"
  by (simp add: post_clear_def)

text \<open>
  The claim as stated fails on the status text, which is part of the shared state: it is
  \<^verbatim>\<open>'waiting...'\<close> at start-up and \<^verbatim>\<open>'buffer cleared'\<close> after clearing.
\<close>

theorem clear_effect_counterexample:
  "lastFrameType (initial_state 0) = Waiting \<and>
   lastFrameType (post_clear (initial_state 0)) = BufferCleared \<and>
   post_clear (initial_state 0)
     \<noteq> (initial_state 0)\<lparr>latestFrameBuffer := None, frameCount := 0, bytesReceived := 0\<rparr>"
  by (simp add: post_clear_def initial_state_def)

text \<open>
  C9. Over any sequence of events without a clear, the frame counter and the byte counter
  never decrease; over any sequence of events at all, the error counter never decreases.
\<close>

theorem counters_monotone:
  "(PostClear \<notin> set evs \<longrightarrow>
      frameCount s \<le> frameCount (run rt s evs) \<and> bytesReceived s \<le> bytesReceived (run rt s evs)) \<and>
   connectionErrors s \<le> connectionErrors (run rt s evs)"
proof (induction evs arbitrary: s)
  case Nil
  show ?case by (simp add: run_def)
next
  case (Cons ev evs)
  have unfold: "run rt s (ev # evs) = run rt (step rt s ev) evs"
    by (simp add: run_def)
  from step_counters [of ev s rt] Cons.IH [of "step rt s ev"]
  show ?case
    unfolding unfold by (cases "ev = PostClear") auto
qed

theorem counters_monotone_witness:
  "frameCount (initial_state 0)
     \<le> frameCount (run toy_runtime (initial_state 0)
          [Connection, Message (StringData ''data:image/png;base64,iVBORw0KGgo=''), SocketError, Close]) \<and>
   bytesReceived (initial_state 0)
     \<le> bytesReceived (run toy_runtime (initial_state 0)
          [Connection, Message (StringData ''data:image/png;base64,iVBORw0KGgo=''), SocketError, Close]) \<and>
   connectionErrors (initial_state 0)
     \<le> connectionErrors (run toy_runtime (initial_state 0) [SocketError, PostClear, SocketError])"
  using counters_monotone [of "[Connection, Message (StringData ''data:image/png;base64,iVBORw0KGgo=''), SocketError, Close]"
      "initial_state 0" toy_runtime]
    counters_monotone [of "[SocketError, PostClear, SocketError]" "initial_state 0" toy_runtime]
  by simp

end
